theory Spec2Isabelle
  imports Complex_Main "HOL-Library.AList" "HOL-Library.Multiset"
begin

section \<open>Text and character classes\<close>

text \<open>
  A Python \<open>str\<close> is a sequence of code points and \<open>len\<close> counts code points. The
  model takes a text to be a \<open>string\<close> whose characters are the code points
  0..255 (Latin-1), one \<open>char\<close> per code point, so \<open>length\<close> is Python's
  \<open>len\<close>. The character classes below are those of the Unicode database
  that Python's \<open>str.isupper\<close>, \<open>str.islower\<close>, \<open>str.isdigit\<close> and
  \<open>str.isspace\<close> consult, restricted to that range (no code point below 256
  is titlecase).
\<close>

definition code_point :: "char \<Rightarrow> nat" where
  "code_point c = of_char c"

definition in_range :: "nat \<Rightarrow> nat \<Rightarrow> char \<Rightarrow> bool" where
  "in_range lo hi c = (lo \<le> code_point c \<and> code_point c \<le> hi)"

definition char_isupper :: "char \<Rightarrow> bool" where
  "char_isupper c = (in_range 65 90 c \<or> in_range 192 214 c \<or> in_range 216 222 c)"

definition char_islower :: "char \<Rightarrow> bool" where
  "char_islower c = (in_range 97 122 c \<or> code_point c = 170 \<or> code_point c = 181
     \<or> code_point c = 186 \<or> in_range 223 246 c \<or> in_range 248 255 c)"

definition char_istitle :: "char \<Rightarrow> bool" where
  "char_istitle c = False"

definition char_isdigit :: "char \<Rightarrow> bool" where
  "char_isdigit c = (in_range 48 57 c \<or> in_range 178 179 c \<or> code_point c = 185)"

definition char_isspace :: "char \<Rightarrow> bool" where
  "char_isspace c = (in_range 9 13 c \<or> in_range 28 32 c \<or> code_point c = 133
     \<or> code_point c = 160)"

text \<open>
  \<open>str.isupper\<close>: false as soon as a lowercase or titlecase character is met,
  otherwise true exactly when some character is uppercase (so false on the
  empty string and on a string without cased characters).
\<close>

definition isupper :: "string \<Rightarrow> bool" where
  "isupper s = (\<not> list_ex (\<lambda>c. char_islower c \<or> char_istitle c) s \<and> list_ex char_isupper s)"

text \<open>
  \<open>str.isalpha\<close> on one character, again Python's table on 0..255. The rules of
  the program never ask it: \<open>str.isupper\<close> goes by the cased characters, and
  beyond this range there are cased characters that are not letters. It serves
  to state that all the alphabetic characters of a text are uppercase (which
  holds of a text without a letter).
\<close>

definition char_isalpha :: "char \<Rightarrow> bool" where
  "char_isalpha c = (in_range 65 90 c \<or> in_range 97 122 c \<or> code_point c = 170
     \<or> code_point c = 181 \<or> code_point c = 186 \<or> in_range 192 214 c
     \<or> in_range 216 246 c \<or> in_range 248 255 c)"

definition alpha_all_upper :: "string \<Rightarrow> bool" where
  "alpha_all_upper s = list_all (\<lambda>c. char_isalpha c \<longrightarrow> char_isupper c) s"

text \<open>\<open>str.isdigit\<close>: every character is a digit and there is at least one.\<close>

definition isdigit :: "string \<Rightarrow> bool" where
  "isdigit s = (s \<noteq> [] \<and> list_all char_isdigit s)"

text \<open>\<open>str.strip()\<close>: leading and trailing whitespace removed.\<close>

definition strip :: "string \<Rightarrow> string" where
  "strip s = rev (dropWhile char_isspace (rev (dropWhile char_isspace s)))"

section \<open>Classification of a text block\<close>

text \<open>
  The formatting rules of \<open>create_html_from_text\<close> (the \<open>if\<close>/\<open>elif\<close> on the
  block's text), named by the role they select.
\<close>

datatype role = Header | Footer | Body

definition classify :: "string \<Rightarrow> role" where
  "classify text =
     (if length text < 50 \<and> isupper text then Header
      else if length text < 30 \<and> isdigit text then Footer
      else Body)"

section \<open>Extraction of the text blocks\<close>

text \<open>
  A dictionary \<open>{'text', 'x', 'y', 'width', 'height'}\<close> of \<open>page_text\<close>. The
  coordinates are Python floats; the model takes them as reals (pdfminer's
  bounding boxes are finite numbers, so their order is the order of the reals
  and negation is exact).
\<close>

record fragment =
  frag_text :: string
  frag_x :: real
  frag_y :: real
  frag_width :: real
  frag_height :: real

text \<open>
  A layout element of a page as pdfminer yields it: a text container with
  its text and bounding box, or anything else (a line, a rectangle, a figure).
\<close>

datatype element =
    LTTextContainer string real real real real
  | LTOther

text \<open>An exception, with the message that \<open>str(e)\<close> returns.\<close>

datatype exn = Exception string

fun exn_str :: "exn \<Rightarrow> string" where
  "exn_str (Exception m) = m"

text \<open>
  What the generator \<open>extract_pages(pdf_path)\<close> does when it is iterated: it
  yields a page layout and goes on, or it is exhausted, or it raises.
\<close>

datatype page_stream =
    End
  | Raise exn
  | Yield "element list" page_stream

fun yield_all :: "element list list \<Rightarrow> page_stream" where
  "yield_all [] = End"
| "yield_all (p # ps) = Yield p (yield_all ps)"

text \<open>Decimal digits of a natural number, as an f-string formats an \<open>int\<close>.\<close>

fun str_nat :: "nat \<Rightarrow> string" where
  "str_nat n = (if n < 10 then [char_of (48 + n)]
                else str_nat (n div 10) @ [char_of (48 + n mod 10)])"

declare str_nat.simps [simp del]

text \<open>The inner loop of \<open>extract_text_from_pdf\<close> over the elements of one page.\<close>

fun page_text_of :: "element list \<Rightarrow> fragment list" where
  "page_text_of [] = []"
| "page_text_of (LTTextContainer t x0 y0 w h # es) =
     (let text = strip t in
      if text \<noteq> [] then
        \<lparr>frag_text = text, frag_x = x0, frag_y = y0, frag_width = w, frag_height = h\<rparr>
          # page_text_of es
      else page_text_of es)"
| "page_text_of (LTOther # es) = page_text_of es"

text \<open>
  The outer loop, with \<open>text_content\<close> as accumulator. The result is the list of
  lines printed, and the exception raised or the value returned.
\<close>

fun extract_loop ::
  "page_stream \<Rightarrow> fragment list list \<Rightarrow> string list \<times> (exn + fragment list list)" where
  "extract_loop End text_content = ([], Inr text_content)"
| "extract_loop (Raise e) text_content =
     ([''Error extracting text from PDF: '' @ exn_str e], Inl e)"
| "extract_loop (Yield page_layout rest) text_content =
     (let page_text = page_text_of page_layout in
      if page_text \<noteq> [] then
        (let r = extract_loop rest (text_content @ [page_text]) in
         ((''Found '' @ str_nat (length page_text) @ '' text blocks on page ''
             @ str_nat (length text_content + 1)) # fst r, snd r))
      else
        (let r = extract_loop rest text_content in
         ((''Warning: No text found on page '' @ str_nat (length text_content + 1)) # fst r,
          snd r)))"

definition extract_text_from_pdf ::
  "page_stream \<Rightarrow> string list \<times> (exn + fragment list list)" where
  "extract_text_from_pdf pages = extract_loop pages []"

section \<open>The HTML tree\<close>

text \<open>
  A BeautifulSoup node: a tag with its name, its attributes in insertion
  order and its contents, or a string.
\<close>

datatype node =
    Tag string "(string \<times> string) list" "node list"
  | NavigableString string

fun node_name :: "node \<Rightarrow> string" where
  "node_name (Tag n a cs) = n"
| "node_name (NavigableString s) = []"

fun node_attrs :: "node \<Rightarrow> (string \<times> string) list" where
  "node_attrs (Tag n a cs) = a"
| "node_attrs (NavigableString s) = []"

fun node_contents :: "node \<Rightarrow> node list" where
  "node_contents (Tag n a cs) = cs"
| "node_contents (NavigableString s) = []"

fun node_string :: "node \<Rightarrow> string" where
  "node_string (Tag n a [NavigableString s]) = s"
| "node_string (NavigableString s) = s"
| "node_string (Tag n a cs) = []"

definition newline :: char where
  "newline = char_of (10 :: nat)"

definition style_string :: string where
  "style_string =
     [newline] @ replicate 12 (CHR '' '')
     @ ''.page { margin-bottom: 2em; padding: 1em; border-bottom: 1px solid #ccc; }''
     @ [newline] @ replicate 12 (CHR '' '')
     @ ''.text-block { margin: 0.5em 0; }''
     @ [newline] @ replicate 12 (CHR '' '')
     @ ''.header { font-weight: bold; font-size: 1.2em; }''
     @ [newline] @ replicate 12 (CHR '' '')
     @ ''.footer { font-size: 0.8em; color: #666; }''
     @ [newline] @ replicate 8 (CHR '' '')"

definition head_tag :: node where
  "head_tag =
     Tag ''head'' []
       [Tag ''meta'' [(''charset'', ''utf-8'')] [],
        Tag ''title'' [] [NavigableString ''Converted PDF''],
        Tag ''style'' [] [NavigableString style_string]]"

text \<open>\<open>sorted(page, key=lambda x: -x['y'])\<close>: the stable sort on the negated y.\<close>

definition sorted_blocks :: "fragment list \<Rightarrow> fragment list" where
  "sorted_blocks page = sort_key (\<lambda>b. - frag_y b) page"

text \<open>
  The body of the loop over \<open>sorted_blocks\<close>: the tag is created with class
  \<open>text-block\<close>, and the assignment \<open>text_block['class'] = ...\<close> of the rule that
  applies sets the value of the key \<open>class\<close>.
\<close>

definition text_block_of :: "fragment \<Rightarrow> node" where
  "text_block_of block =
     (let attrs = [(''class'', ''text-block'')];
          text = frag_text block;
          attrs' = (case classify text of
                      Header \<Rightarrow> AList.update ''class'' ''header'' attrs
                    | Footer \<Rightarrow> AList.update ''class'' ''footer'' attrs
                    | Body \<Rightarrow> attrs)
      in Tag ''div'' attrs' [NavigableString text])"

definition page_div_of :: "nat \<Rightarrow> fragment list \<Rightarrow> node" where
  "page_div_of page_num page =
     Tag ''div'' [(''class'', ''page'')]
       (Tag ''h2'' [] [NavigableString (''Page '' @ str_nat page_num)]
          # map text_block_of (sorted_blocks page))"

text \<open>\<open>enumerate(text_content, 1)\<close>.\<close>

definition enumerate1 :: "'a list \<Rightarrow> (nat \<times> 'a) list" where
  "enumerate1 xs = zip [1 ..< Suc (length xs)] xs"

text \<open>The tree that \<open>create_html_from_text\<close> has built when it calls \<open>prettify\<close>.\<close>

definition html_tree :: "fragment list list \<Rightarrow> node" where
  "html_tree text_content =
     Tag ''html'' []
       [head_tag,
        Tag ''body'' [] (map (\<lambda>(page_num, page). page_div_of page_num page)
                           (enumerate1 text_content))]"

text \<open>
  \<open>create_html_from_text\<close>. The serialisation \<open>soup.prettify()\<close> belongs to
  BeautifulSoup and is a parameter, which returns the string or raises.
\<close>

definition create_html_from_text ::
  "(node \<Rightarrow> exn + string) \<Rightarrow> fragment list list \<Rightarrow> string list \<times> (exn + string)" where
  "create_html_from_text prettify text_content =
     (let processing = map (\<lambda>(page_num, page).
            ''Processing page '' @ str_nat page_num @ '' with ''
              @ str_nat (length page) @ '' text blocks'') (enumerate1 text_content)
      in case prettify (html_tree text_content) of
           Inl e \<Rightarrow> (processing @ [''Error creating HTML: '' @ exn_str e], Inl e)
         | Inr result \<Rightarrow>
             (processing @ [''Generated HTML length: '' @ str_nat (length result)
                             @ '' characters''], Inr result))"

text \<open>Reading the tree back: the page containers, their headings and blocks.\<close>

definition pages_of :: "node \<Rightarrow> node list" where
  "pages_of html = concat (map node_contents
      (filter (\<lambda>n. node_name n = ''body'') (node_contents html)))"

definition heading_of :: "node \<Rightarrow> string" where
  "heading_of page_div = node_string (hd (node_contents page_div))"

definition blocks_of :: "node \<Rightarrow> node list" where
  "blocks_of page_div = tl (node_contents page_div)"

section \<open>Paths and the file system\<close>

text \<open>\<open>os.path.basename\<close>, \<open>os.path.splitext\<close> and \<open>os.path.join\<close> (POSIX).\<close>

definition basename :: "string \<Rightarrow> string" where
  "basename p = rev (takeWhile (\<lambda>c. c \<noteq> CHR ''/'') (rev p))"

definition splitext :: "string \<Rightarrow> string \<times> string" where
  "splitext p =
     (let name = basename p;
          dir = take (length p - length name) p;
          ext = rev (takeWhile (\<lambda>c. c \<noteq> CHR ''.'') (rev name));
          stem = take (length name - length ext - 1) name
      in if CHR ''.'' \<in> set name \<and> list_ex (\<lambda>c. c \<noteq> CHR ''.'') stem
         then (dir @ stem, CHR ''.'' # ext)
         else (p, []))"

definition path_join :: "string \<Rightarrow> string \<Rightarrow> string" where
  "path_join a b =
     (if b \<noteq> [] \<and> hd b = CHR ''/'' then b
      else if a = [] \<or> last a = CHR ''/'' then a @ b
      else a @ ''/'' @ b)"

text \<open>
  The state outside the program: the regular files with their contents, the
  directories, the paths at which the operating system refuses to create
  anything, and the lines printed so far.
\<close>

record world =
  files :: "string \<Rightarrow> string option"
  dirs :: "string set"
  denied :: "string set"
  stdout :: "string list"

definition print :: "string \<Rightarrow> world \<Rightarrow> world" where
  "print line w = w\<lparr>stdout := stdout w @ [line]\<rparr>"

definition print_all :: "string list \<Rightarrow> world \<Rightarrow> world" where
  "print_all lines w = w\<lparr>stdout := stdout w @ lines\<rparr>"

text \<open>
  \<open>os.makedirs(output_dir, exist_ok=True)\<close>: every directory on the way to the
  path, outermost first, and then the path itself; a directory that exists is
  left alone, a regular file in the way or a refusal raises, and the
  directories made before that stay. The directories on the way are the
  prefixes of the path that end before a separator.
\<close>

definition ancestors :: "string \<Rightarrow> string list" where
  "ancestors d =
     map (\<lambda>i. take i d)
       (filter (\<lambda>i. d ! i = CHR ''/'' \<and> d ! (i - 1) \<noteq> CHR ''/'') [1 ..< length d])"

fun mkdir_chain :: "string list \<Rightarrow> world \<Rightarrow> world \<times> (exn + unit)" where
  "mkdir_chain [] w = (w, Inr ())"
| "mkdir_chain (d # ds) w =
     (if d \<in> dirs w then mkdir_chain ds w
      else if files w d \<noteq> None then (w, Inl (Exception (''File exists: '' @ d)))
      else if d \<in> denied w then (w, Inl (Exception (''Permission denied: '' @ d)))
      else mkdir_chain ds (w\<lparr>dirs := insert d (dirs w)\<rparr>))"

definition makedirs :: "string \<Rightarrow> world \<Rightarrow> world \<times> (exn + unit)" where
  "makedirs d w = mkdir_chain (ancestors d @ [d]) w"

text \<open>
  \<open>with open(output_path, 'w', encoding='utf-8') as f: f.write(html_content)\<close>:
  raises on a directory or a refusal, otherwise the file holds the content.
\<close>

definition open_write :: "string \<Rightarrow> string \<Rightarrow> world \<Rightarrow> exn + world" where
  "open_write p content w =
     (if p \<in> dirs w then Inl (Exception (''Is a directory: '' @ p))
      else if p \<in> denied w then Inl (Exception (''Permission denied: '' @ p))
      else Inr (w\<lparr>files := (files w)(p \<mapsto> content)\<rparr>))"

definition path_exists :: "string \<Rightarrow> world \<Rightarrow> bool" where
  "path_exists p w = (files w p \<noteq> None \<or> p \<in> dirs w)"

text \<open>\<open>os.path.getsize\<close>: the length of the UTF-8 encoding of the content.\<close>

definition getsize :: "string \<Rightarrow> world \<Rightarrow> nat" where
  "getsize p w =
     (case files w p of
        None \<Rightarrow> 0
      | Some content \<Rightarrow> sum_list (map (\<lambda>c. if code_point c < 128 then 1 else 2) content))"

section \<open>The conversion of one document\<close>

text \<open>
  The collaborators of \<open>convert_pdf_to_html\<close>: pdfminer's \<open>extract_pages\<close>
  and BeautifulSoup's \<open>prettify\<close>.
\<close>

record collaborators =
  extract_pages :: "string \<Rightarrow> page_stream"
  prettify :: "node \<Rightarrow> exn + string"

text \<open>The handler \<open>except Exception as e: print(...); raise\<close> of the function.\<close>

definition conversion_error :: "exn \<Rightarrow> world \<Rightarrow> world \<times> (exn + unit)" where
  "conversion_error e w = (print (''Error during conversion: '' @ exn_str e) w, Inl e)"

text \<open>The statements from \<open>open(output_path, 'w')\<close> to the end of the function.\<close>

definition save_html :: "string \<Rightarrow> string \<Rightarrow> world \<Rightarrow> world \<times> (exn + unit)" where
  "save_html output_path html_content w =
     (case open_write output_path html_content w of
        Inl e \<Rightarrow> conversion_error e w
      | Inr w1 \<Rightarrow>
          (let w2 = print (''Wrote '' @ str_nat (length html_content) @ '' bytes to file'') w1;
               w3 = (if path_exists output_path w2
                     then print (''File created successfully. Size: ''
                                   @ str_nat (getsize output_path w2) @ '' bytes'') w2
                     else print ''Warning: File was not created!'' w2)
           in (print (''Conversion complete! HTML file saved to '' @ output_path) w3,
               Inr ())))"

definition convert_pdf_to_html ::
  "collaborators \<Rightarrow> string \<Rightarrow> string \<Rightarrow> world \<Rightarrow> world \<times> (exn + unit)" where
  "convert_pdf_to_html env pdf_path output_dir w =
     (let made = makedirs output_dir w;
          w1 = fst made
      in case snd made of
        Inl e \<Rightarrow> conversion_error e w1
      | Inr u \<Rightarrow>
          (let pdf_name = fst (splitext (basename pdf_path));
               output_path = path_join output_dir (pdf_name @ ''.html'');
               w2 = print (''Extracting text from '' @ pdf_path @ ''...'') w1;
               extracted = extract_text_from_pdf (extract_pages env pdf_path);
               w3 = print_all (fst extracted) w2
           in case snd extracted of
                Inl e \<Rightarrow> conversion_error e w3
              | Inr text_content \<Rightarrow>
                  (let w4 = print (''Extracted '' @ str_nat (length text_content)
                                     @ '' pages of content'') w3
                   in if text_content = [] then
                        (print ''Warning: No text content extracted from PDF'' w4, Inr ())
                      else
                        (let w5 = print ''Converting to HTML...'' w4;
                             created = create_html_from_text (prettify env) text_content;
                             w6 = print_all (fst created) w5
                         in case snd created of
                              Inl e \<Rightarrow> conversion_error e w6
                            | Inr html_content \<Rightarrow>
                                if html_content = [] then
                                  (print ''Warning: No HTML content generated'' w6, Inr ())
                                else
                                  save_html output_path html_content
                                    (print (''Saving HTML to '' @ output_path @ ''...'') w6)))))"

section \<open>Properties of the classification\<close>

lemmas char_class_defs =
  char_isupper_def char_islower_def char_istitle_def char_isdigit_def char_isspace_def
  char_isalpha_def in_range_def code_point_def

lemma digit_not_upper: "char_isdigit c \<Longrightarrow> \<not> char_isupper c"
  by (auto simp add: char_isdigit_def char_isupper_def in_range_def)

lemma isdigit_not_isupper: "isdigit t \<Longrightarrow> \<not> isupper t"
  by (auto simp add: isdigit_def isupper_def list_all_iff list_ex_iff dest: digit_not_upper)

text \<open>
  C1 (as the code has it). A text is classified Header exactly when it has
  fewer than 50 characters, none of them lowercase or titlecase, and at least
  one of them uppercase. So a text of fewer than 50 characters with an
  uppercase character and no lowercase or titlecase one is Header, and a text
  without an uppercase character (one without any letter, say) never is.
\<close>

theorem classify_Header_iff_cased:
  "classify t = Header \<longleftrightarrow>
     length t < 50
     \<and> list_all (\<lambda>c. \<not> char_islower c \<and> \<not> char_istitle c) t
     \<and> list_ex char_isupper t"
proof -
  have "isupper t \<longleftrightarrow>
      list_all (\<lambda>c. \<not> char_islower c \<and> \<not> char_istitle c) t \<and> list_ex char_isupper t"
    by (auto simp add: isupper_def list_all_iff list_ex_iff)
  then show ?thesis by (simp add: classify_def)
qed

theorem classify_Header_iff_cased_witness:
  "length ''PAGE 1'' < 50
   \<and> list_all (\<lambda>c. \<not> char_islower c \<and> \<not> char_istitle c) ''PAGE 1''
   \<and> list_ex char_isupper ''PAGE 1''
   \<and> classify ''PAGE 1'' = Header
   \<and> \<not> list_ex char_isupper ''123-456''
   \<and> classify ''123-456'' \<noteq> Header"
proof -
  have a: "length ''PAGE 1'' < 50" by simp
  have b: "list_all (\<lambda>c. \<not> char_islower c \<and> \<not> char_istitle c) ''PAGE 1''"
    by (simp add: char_class_defs)
  have c: "list_ex char_isupper ''PAGE 1''" by (simp add: char_class_defs)
  have d: "\<not> list_ex char_isupper ''123-456''" by (simp add: char_class_defs)
  from a b c have "classify ''PAGE 1'' = Header"
    using classify_Header_iff_cased [of "''PAGE 1''"] by blast
  moreover from d have "classify ''123-456'' \<noteq> Header"
    using classify_Header_iff_cased [of "''123-456''"] by blast
  ultimately show ?thesis using a b c d by blast
qed

text \<open>
  C1 as stated fails: \<open>"123-456"\<close> is shorter than 50 characters and has no
  alphabetic character (so none that is not uppercase), and it is classified
  Body.
\<close>

theorem classify_no_alpha_counterexample:
  "length ''123-456'' < 50 \<and> alpha_all_upper ''123-456'' \<and> classify ''123-456'' = Body"
  by (simp add: alpha_all_upper_def classify_def isupper_def isdigit_def char_class_defs)

text \<open>
  C2 (as the code has it). A non-empty text of fewer than 30 characters, all of
  them digits, is classified Footer: a text of digits has no uppercase
  character, so the Header rule never takes it.
\<close>

theorem classify_digits_is_Footer:
  assumes "t \<noteq> []" and "length t < 30" and "list_all char_isdigit t"
  shows "classify t = Footer"
proof -
  have d: "isdigit t" using assms(1,3) by (simp add: isdigit_def)
  then have "\<not> isupper t" by (rule isdigit_not_isupper)
  with d assms(2) show ?thesis by (simp add: classify_def)
qed

theorem classify_digits_is_Footer_witness:
  "''42'' \<noteq> [] \<and> length ''42'' < 30 \<and> list_all char_isdigit ''42'' \<and> classify ''42'' = Footer"
proof -
  have a: "''42'' \<noteq> []" by simp
  have b: "length ''42'' < 30" by simp
  have c: "list_all char_isdigit ''42''" by (simp add: char_class_defs)
  show ?thesis using a b c classify_digits_is_Footer [OF a b c] by simp
qed

text \<open>
  C2 as stated fails: \<open>"123"\<close> is a text of digits, shorter than 30 (and 50)
  characters, with no alphabetic character that is not uppercase, and it is
  not classified Header.
\<close>

theorem classify_digits_counterexample:
  "''123'' \<noteq> [] \<and> length ''123'' < 30 \<and> list_all char_isdigit ''123''
   \<and> length ''123'' < 50 \<and> alpha_all_upper ''123'' \<and> classify ''123'' \<noteq> Header"
  by (simp add: alpha_all_upper_def classify_def isupper_def isdigit_def char_class_defs)

section \<open>Properties of the reading order\<close>

text \<open>
  C3. The sorted blocks of a page are a permutation of the page, a fragment
  never comes before one with a larger y, and the fragments of any given y
  are in the order they had on the page (the sort is stable, and nothing but y
  is compared).
\<close>

theorem sorted_blocks_stable_descending:
  "mset (sorted_blocks page) = mset page
   \<and> sorted_wrt (\<lambda>a b. frag_y a \<ge> frag_y b) (sorted_blocks page)
   \<and> (\<forall>k. filter (\<lambda>b. frag_y b = k) (sorted_blocks page) = filter (\<lambda>b. frag_y b = k) page)"
proof -
  have p: "mset (sorted_blocks page) = mset page"
    by (simp add: sorted_blocks_def)
  have "sorted (map (\<lambda>b. - frag_y b) (sorted_blocks page))"
    by (simp add: sorted_blocks_def)
  then have s: "sorted_wrt (\<lambda>a b. frag_y a \<ge> frag_y b) (sorted_blocks page)"
    by (simp add: sorted_wrt_map)
  have st: "filter (\<lambda>b. frag_y b = k) (sorted_blocks page) = filter (\<lambda>b. frag_y b = k) page" for k
    using sort_key_stable [of "\<lambda>b. - frag_y b" "- k" page]
    by (simp add: sorted_blocks_def)
  from p s st show ?thesis by blast
qed

text \<open>
  C4 (as the code has it). Four fragments with y = 10, 30, 10, 20 in that order
  come out as: the one with y = 30, the one with y = 20, then the two with
  y = 10 in their original order.
\<close>

theorem sorted_blocks_four:
  assumes "frag_y a = 10" and "frag_y b = 30" and "frag_y c = 10" and "frag_y d = 20"
  shows "sorted_blocks [a, b, c, d] = [b, d, a, c]"
  using assms by (simp add: sorted_blocks_def)

theorem sorted_blocks_four_witness:
  "sorted_blocks
     [\<lparr>frag_text = ''left'', frag_x = 0, frag_y = 10, frag_width = 4, frag_height = 2\<rparr>,
      \<lparr>frag_text = ''TITLE'', frag_x = 0, frag_y = 30, frag_width = 9, frag_height = 2\<rparr>,
      \<lparr>frag_text = ''right'', frag_x = 50, frag_y = 10, frag_width = 4, frag_height = 2\<rparr>,
      \<lparr>frag_text = ''middle'', frag_x = 0, frag_y = 20, frag_width = 4, frag_height = 2\<rparr>]
   = [\<lparr>frag_text = ''TITLE'', frag_x = 0, frag_y = 30, frag_width = 9, frag_height = 2\<rparr>,
      \<lparr>frag_text = ''middle'', frag_x = 0, frag_y = 20, frag_width = 4, frag_height = 2\<rparr>,
      \<lparr>frag_text = ''left'', frag_x = 0, frag_y = 10, frag_width = 4, frag_height = 2\<rparr>,
      \<lparr>frag_text = ''right'', frag_x = 50, frag_y = 10, frag_width = 4, frag_height = 2\<rparr>]"
  by (rule sorted_blocks_four) simp_all

text \<open>
  C4 as stated fails: the order is not y = 30, the two y = 10, then y = 20.
\<close>

theorem sorted_blocks_four_counterexample:
  "map frag_text (sorted_blocks
     [\<lparr>frag_text = ''first 10'', frag_x = 0, frag_y = 10, frag_width = 1, frag_height = 1\<rparr>,
      \<lparr>frag_text = ''the 30'', frag_x = 0, frag_y = 30, frag_width = 1, frag_height = 1\<rparr>,
      \<lparr>frag_text = ''second 10'', frag_x = 0, frag_y = 10, frag_width = 1, frag_height = 1\<rparr>,
      \<lparr>frag_text = ''the 20'', frag_x = 0, frag_y = 20, frag_width = 1, frag_height = 1\<rparr>])
   \<noteq> [''the 30'', ''first 10'', ''second 10'', ''the 20'']"
  by (simp add: sorted_blocks_def)

section \<open>Properties of extraction and of the HTML tree\<close>

lemma extract_loop_yield_all:
  "snd (extract_loop (yield_all ps) acc)
     = Inr (acc @ filter (\<lambda>p. p \<noteq> []) (map page_text_of ps))"
  by (induction ps arbitrary: acc) (simp_all add: Let_def)

lemma heading_of_page_div [simp]:
  "heading_of (page_div_of n page) = ''Page '' @ str_nat n"
  by (simp add: heading_of_def page_div_of_def)

lemma blocks_of_page_div [simp]:
  "blocks_of (page_div_of n page) = map text_block_of (sorted_blocks page)"
  by (simp add: blocks_of_def page_div_of_def)

lemma pages_of_html_tree:
  "pages_of (html_tree tc) = map (\<lambda>(n, page). page_div_of n page) (enumerate1 tc)"
  by (simp add: pages_of_def html_tree_def head_tag_def)

lemma map_fst_enumerate1: "map fst (enumerate1 xs) = [1 ..< Suc (length xs)]"
  unfolding enumerate1_def by (rule map_fst_zip) (simp del: upt_Suc)

lemma map_snd_enumerate1: "map snd (enumerate1 xs) = xs"
  unfolding enumerate1_def by (rule map_snd_zip) (simp del: upt_Suc)

lemma length_enumerate1 [simp]: "length (enumerate1 xs) = length xs"
  by (simp add: enumerate1_def del: upt_Suc)

lemma mset_sorted_blocks [simp]: "mset (sorted_blocks page) = mset page"
  by (simp add: sorted_blocks_def)

lemma length_sorted_blocks [simp]: "length (sorted_blocks page) = length page"
  by (simp add: sorted_blocks_def)

lemma map_enumerate1_snd:
  "map (\<lambda>(n, page). f page) (enumerate1 xs) = map f xs"
proof -
  have "map (\<lambda>(n, page). f page) (enumerate1 xs) = map f (map snd (enumerate1 xs))"
    by (simp add: case_prod_unfold comp_def)
  then show ?thesis by (simp only: map_snd_enumerate1)
qed

lemma map_enumerate1_fst:
  "map (\<lambda>(n, page). g n) (enumerate1 xs) = map g [1 ..< Suc (length xs)]"
proof -
  have "map (\<lambda>(n, page). g n) (enumerate1 xs) = map g (map fst (enumerate1 xs))"
    by (simp add: case_prod_unfold comp_def)
  then show ?thesis by (simp only: map_fst_enumerate1)
qed

lemma node_string_text_block [simp]: "node_string (text_block_of b) = frag_text b"
  by (simp add: text_block_of_def Let_def)

lemma image_mset_block_strings [simp]:
  "image_mset node_string (mset (blocks_of (page_div_of n page)))
     = image_mset frag_text (mset page)"
proof -
  have "map node_string (blocks_of (page_div_of n page)) = map frag_text (sorted_blocks page)"
    by (simp add: comp_def)
  then have "mset (map node_string (blocks_of (page_div_of n page)))
      = mset (map frag_text (sorted_blocks page))"
    by (simp only:)
  then show ?thesis by (simp del: blocks_of_page_div)
qed

text \<open>
  C5. When every page is yielded, the text content is the list of the pages
  that have a text block, in order: a page without one is dropped. The tree
  has one page container for each of them, and their headings are
  \<open>Page 1\<close>, \<open>Page 2\<close>, ... in sequence, whatever the numbers of the pages in
  the source were.
\<close>

theorem empty_pages_dropped_and_renumbered:
  "snd (extract_text_from_pdf (yield_all ps))
     = Inr (filter (\<lambda>p. p \<noteq> []) (map page_text_of ps))
   \<and> length (pages_of (html_tree (filter (\<lambda>p. p \<noteq> []) (map page_text_of ps))))
     = length (filter (\<lambda>p. p \<noteq> []) (map page_text_of ps))
   \<and> map heading_of (pages_of (html_tree (filter (\<lambda>p. p \<noteq> []) (map page_text_of ps))))
     = map (\<lambda>k. ''Page '' @ str_nat k)
         [1 ..< Suc (length (filter (\<lambda>p. p \<noteq> []) (map page_text_of ps)))]"
proof -
  let ?tc = "filter (\<lambda>p. p \<noteq> []) (map page_text_of ps)"
  have a: "snd (extract_text_from_pdf (yield_all ps)) = Inr ?tc"
    by (simp add: extract_text_from_pdf_def extract_loop_yield_all)
  have b: "length (pages_of (html_tree ?tc)) = length ?tc"
    by (simp add: pages_of_html_tree)
  have "map heading_of (pages_of (html_tree ?tc))
          = map (\<lambda>(n, page). ''Page '' @ str_nat n) (enumerate1 ?tc)"
    by (simp add: pages_of_html_tree case_prod_unfold)
  then have c: "map heading_of (pages_of (html_tree ?tc))
          = map (\<lambda>k. ''Page '' @ str_nat k) [1 ..< Suc (length ?tc)]"
    by (simp only: map_enumerate1_fst)
  from a b c show ?thesis by blast
qed

lemma str_nat_1: "str_nat (Suc 0) = ''1''"
proof -
  have "str_nat 1 = ''1''" by code_simp
  then show ?thesis by simp
qed

lemma str_nat_2: "str_nat (Suc (Suc 0)) = ''2''"
proof -
  have "str_nat 2 = ''2''" by code_simp
  then show ?thesis by (simp add: numeral_2_eq_2)
qed

theorem empty_pages_dropped_and_renumbered_witness:
  "map heading_of (pages_of (html_tree (filter (\<lambda>p. p \<noteq> []) (map page_text_of
      [[LTTextContainer ''Intro'' 72 700 100 12],
       [LTOther, LTTextContainer ''   '' 72 700 100 12],
       [LTTextContainer ''The end'' 72 700 100 12]]))))
   = [''Page 1'', ''Page 2'']"
proof -
  let ?ps = "[[LTTextContainer ''Intro'' 72 700 100 12],
              [LTOther, LTTextContainer ''   '' 72 700 100 12],
              [LTTextContainer ''The end'' 72 700 100 12]]"
  have n: "length (filter (\<lambda>p. p \<noteq> []) (map page_text_of ?ps)) = 2"
    by (simp add: strip_def char_class_defs)
  have s: "map (\<lambda>k. ''Page '' @ str_nat k) [1 ..< Suc 2] = [''Page 1'', ''Page 2'']"
    by (simp add: str_nat_1 str_nat_2 upt_rec)
  from empty_pages_dropped_and_renumbered [of ?ps]
  have "map heading_of (pages_of (html_tree (filter (\<lambda>p. p \<noteq> []) (map page_text_of ?ps))))
          = map (\<lambda>k. ''Page '' @ str_nat k)
              [1 ..< Suc (length (filter (\<lambda>p. p \<noteq> []) (map page_text_of ?ps)))]"
    by (rule conjunct2 [THEN conjunct2])
  then show ?thesis by (simp only: n s)
qed

text \<open>
  C7 (as the code has it). Every block element of the tree has exactly one
  class: \<open>header\<close> when its text is classified Header, \<open>footer\<close> when Footer, and
  \<open>text-block\<close> when Body. The assignment to \<open>text_block['class']\<close> replaces the
  class the tag was created with.
\<close>

theorem block_classes:
  "map (\<lambda>p. map node_attrs (blocks_of p)) (pages_of (html_tree text_content))
     = map (\<lambda>page. map (\<lambda>b. [(''class'',
                                 case classify (frag_text b) of
                                   Header \<Rightarrow> ''header''
                                 | Footer \<Rightarrow> ''footer''
                                 | Body \<Rightarrow> ''text-block'')])
                         (sorted_blocks page))
           text_content"
proof -
  have attrs: "node_attrs (text_block_of b)
      = [(''class'', case classify (frag_text b) of
                       Header \<Rightarrow> ''header'' | Footer \<Rightarrow> ''footer'' | Body \<Rightarrow> ''text-block'')]" for b
    by (cases "classify (frag_text b)") (simp_all add: text_block_of_def)
  have "map (\<lambda>p. map node_attrs (blocks_of p)) (pages_of (html_tree text_content))
      = map (\<lambda>(n, page). map node_attrs (map text_block_of (sorted_blocks page)))
          (enumerate1 text_content)"
    by (simp add: pages_of_html_tree case_prod_unfold)
  also have "\<dots> = map (\<lambda>page. map node_attrs (map text_block_of (sorted_blocks page))) text_content"
    by (rule map_enumerate1_snd)
  finally show ?thesis by (simp add: attrs comp_def)
qed

text \<open>
  C7 as stated fails: a block classified Header has the class \<open>header\<close> alone,
  without \<open>text-block\<close>.
\<close>

theorem header_block_class_counterexample:
  "classify ''TITLE'' = Header
   \<and> text_block_of \<lparr>frag_text = ''TITLE'', frag_x = 0, frag_y = 700, frag_width = 90,
                     frag_height = 12\<rparr>
     = Tag ''div'' [(''class'', ''header'')] [NavigableString ''TITLE'']"
  by (simp add: text_block_of_def classify_def isupper_def char_class_defs)

text \<open>
  C8. For every page, the tree has as many blocks as the page has fragments,
  and the texts of the blocks are the texts of the fragments, each as many
  times as it occurs among the fragments.
\<close>

theorem blocks_are_the_fragments:
  "map (\<lambda>p. length (blocks_of p)) (pages_of (html_tree text_content))
     = map length text_content
   \<and> map (\<lambda>p. mset (map node_string (blocks_of p))) (pages_of (html_tree text_content))
     = map (\<lambda>page. mset (map frag_text page)) text_content"
proof -
  have "map (\<lambda>p. length (blocks_of p)) (pages_of (html_tree text_content))
      = map (\<lambda>(n, page). length page) (enumerate1 text_content)"
    by (simp add: pages_of_html_tree case_prod_unfold)
  then have a: "map (\<lambda>p. length (blocks_of p)) (pages_of (html_tree text_content))
      = map length text_content"
    by (simp only: map_enumerate1_snd)
  have "map (\<lambda>p. mset (map node_string (blocks_of p))) (pages_of (html_tree text_content))
      = map (\<lambda>(n, page). mset (map frag_text page)) (enumerate1 text_content)"
    by (simp add: pages_of_html_tree case_prod_unfold del: blocks_of_page_div)
  then have b: "map (\<lambda>p. mset (map node_string (blocks_of p))) (pages_of (html_tree text_content))
      = map (\<lambda>page. mset (map frag_text page)) text_content"
    by (simp only: map_enumerate1_snd)
  from a b show ?thesis by blast
qed

text \<open>
  C6, evaluated on a document of two pages without text (a rectangle on the
  first, a text box of blanks on the second): both warnings carry the number 1,
  since the number printed is one more than the count of pages kept so far.
  The extraction goes on after a warning and returns normally.
\<close>

theorem warning_page_numbers:
  "extract_text_from_pdf (yield_all [[LTOther], [LTTextContainer ''  '' 72 700 100 12]])
     = ([''Warning: No text found on page 1'', ''Warning: No text found on page 1''], Inr [])"
  by (simp add: extract_text_from_pdf_def strip_def char_class_defs str_nat_1)

section \<open>Properties of the conversion\<close>

lemma files_print [simp]: "files (print l w) = files w"
  by (simp add: print_def)

lemma files_print_all [simp]: "files (print_all ls w) = files w"
  by (simp add: print_all_def)

lemma stdout_print [simp]: "stdout (print l w) = stdout w @ [l]"
  by (simp add: print_def)

lemma files_mkdir_chain [simp]: "files (fst (mkdir_chain ds w)) = files w"
  by (induction ds arbitrary: w) simp_all

lemma stdout_mkdir_chain [simp]: "stdout (fst (mkdir_chain ds w)) = stdout w"
  by (induction ds arbitrary: w) simp_all

lemma files_makedirs [simp]: "files (fst (makedirs d w)) = files w"
  by (simp add: makedirs_def)

lemma files_conversion_error [simp]: "files (fst (conversion_error e w)) = files w"
  by (simp add: conversion_error_def)

lemma snd_conversion_error [simp]: "snd (conversion_error e w) = Inl e"
  by (simp add: conversion_error_def)

text \<open>
  C9. When the output directory is there or can be made, and the extraction
  returns an empty text content, the conversion returns normally, the files
  are what they were before, and the last line printed is the warning.
\<close>

theorem empty_content_is_no_op:
  assumes mk: "snd (makedirs output_dir w) = Inr ()"
    and ex: "snd (extract_text_from_pdf (extract_pages env pdf_path)) = Inr []"
  shows "snd (convert_pdf_to_html env pdf_path output_dir w) = Inr ()
    \<and> files (fst (convert_pdf_to_html env pdf_path output_dir w)) = files w
    \<and> last (stdout (fst (convert_pdf_to_html env pdf_path output_dir w)))
        = ''Warning: No text content extracted from PDF''"
  by (simp add: convert_pdf_to_html_def mk ex Let_def)

theorem empty_content_is_no_op_witness:
  "makedirs ''html_output''
      \<lparr>files = [''html_output/blank.html'' \<mapsto> ''old''], dirs = {}, denied = {}, stdout = []\<rparr>
     = (\<lparr>files = [''html_output/blank.html'' \<mapsto> ''old''], dirs = {''html_output''},
         denied = {}, stdout = []\<rparr>, Inr ())
   \<and> snd (extract_text_from_pdf (yield_all [[LTOther], []])) = Inr []
   \<and> snd (convert_pdf_to_html
        \<lparr>extract_pages = (\<lambda>path. yield_all [[LTOther], []]),
         prettify = (\<lambda>tree. Inr ''<html></html>'')\<rparr>
        ''reference/blank.pdf'' ''html_output''
        \<lparr>files = [''html_output/blank.html'' \<mapsto> ''old''], dirs = {}, denied = {},
         stdout = []\<rparr>) = Inr ()
   \<and> files (fst (convert_pdf_to_html
        \<lparr>extract_pages = (\<lambda>path. yield_all [[LTOther], []]),
         prettify = (\<lambda>tree. Inr ''<html></html>'')\<rparr>
        ''reference/blank.pdf'' ''html_output''
        \<lparr>files = [''html_output/blank.html'' \<mapsto> ''old''], dirs = {}, denied = {},
         stdout = []\<rparr>)) = [''html_output/blank.html'' \<mapsto> ''old'']"
proof -
  let ?w = "\<lparr>files = [''html_output/blank.html'' \<mapsto> ''old''], dirs = {}, denied = {},
             stdout = []\<rparr>"
  let ?env = "\<lparr>extract_pages = (\<lambda>path. yield_all [[LTOther], []]),
               prettify = (\<lambda>tree. Inr ''<html></html>'')\<rparr>"
  have anc: "ancestors ''html_output'' = []" by code_simp
  have mk: "makedirs ''html_output'' ?w
      = (\<lparr>files = [''html_output/blank.html'' \<mapsto> ''old''], dirs = {''html_output''},
          denied = {}, stdout = []\<rparr>, Inr ())"
    by (simp add: makedirs_def anc)
  then have mk': "snd (makedirs ''html_output'' ?w) = Inr ()" by simp
  have ex: "snd (extract_text_from_pdf (yield_all [[LTOther], []])) = Inr []"
    by (simp add: extract_text_from_pdf_def)
  have ex': "snd (extract_text_from_pdf (extract_pages ?env ''reference/blank.pdf'')) = Inr []"
    using ex by simp
  from empty_content_is_no_op [OF mk' ex'] mk ex show ?thesis by simp
qed

text \<open>
  C10. When the extraction raises, or the generation of the HTML string
  raises, every file is what it was before the call: the output file is
  neither created nor overwritten.
\<close>

theorem failure_leaves_files:
  assumes "(\<exists>e. snd (extract_text_from_pdf (extract_pages env pdf_path)) = Inl e)
    \<or> (\<exists>tc e. snd (extract_text_from_pdf (extract_pages env pdf_path)) = Inr tc
          \<and> snd (create_html_from_text (prettify env) tc) = Inl e)"
  shows "files (fst (convert_pdf_to_html env pdf_path output_dir w)) = files w"
proof (cases "snd (makedirs output_dir w)")
  case (Inl e)
  then show ?thesis by (simp add: convert_pdf_to_html_def Let_def)
next
  case (Inr u)
  from assms show ?thesis
  proof (elim disjE exE conjE)
    fix e assume "snd (extract_text_from_pdf (extract_pages env pdf_path)) = Inl e"
    then show ?thesis by (simp add: convert_pdf_to_html_def Inr Let_def)
  next
    fix tc e
    assume "snd (extract_text_from_pdf (extract_pages env pdf_path)) = Inr tc"
      and "snd (create_html_from_text (prettify env) tc) = Inl e"
    then show ?thesis by (simp add: convert_pdf_to_html_def Inr Let_def)
  qed
qed

theorem failure_leaves_files_witness:
  "snd (extract_text_from_pdf
          (Yield [LTTextContainer ''A'' 72 700 100 12] (Raise (Exception ''bad xref''))))
     = Inl (Exception ''bad xref'')
   \<and> files (fst (convert_pdf_to_html
        \<lparr>extract_pages = (\<lambda>path. Yield [LTTextContainer ''A'' 72 700 100 12]
                                      (Raise (Exception ''bad xref''))),
         prettify = (\<lambda>tree. Inr ''<html></html>'')\<rparr>
        ''reference/a.pdf'' ''html_output''
        \<lparr>files = [''html_output/a.html'' \<mapsto> ''old''], dirs = {}, denied = {},
         stdout = []\<rparr>)) = [''html_output/a.html'' \<mapsto> ''old'']
   \<and> snd (extract_text_from_pdf (yield_all [[LTTextContainer ''A'' 72 700 100 12]]))
     = Inr [[\<lparr>frag_text = ''A'', frag_x = 72, frag_y = 700, frag_width = 100,
              frag_height = 12\<rparr>]]
   \<and> files (fst (convert_pdf_to_html
        \<lparr>extract_pages = (\<lambda>path. yield_all [[LTTextContainer ''A'' 72 700 100 12]]),
         prettify = (\<lambda>tree. Inl (Exception ''cannot serialise''))\<rparr>
        ''reference/a.pdf'' ''html_output''
        \<lparr>files = [''html_output/a.html'' \<mapsto> ''old''], dirs = {}, denied = {},
         stdout = []\<rparr>)) = [''html_output/a.html'' \<mapsto> ''old'']"
proof -
  let ?w = "\<lparr>files = [''html_output/a.html'' \<mapsto> ''old''], dirs = {}, denied = {},
             stdout = []\<rparr>"
  let ?env1 = "\<lparr>extract_pages = (\<lambda>path. Yield [LTTextContainer ''A'' 72 700 100 12]
                                             (Raise (Exception ''bad xref''))),
                prettify = (\<lambda>tree. Inr ''<html></html>'')\<rparr>"
  let ?env2 = "\<lparr>extract_pages = (\<lambda>path. yield_all [[LTTextContainer ''A'' 72 700 100 12]]),
                prettify = (\<lambda>tree. Inl (Exception ''cannot serialise''))\<rparr>"
  let ?tc = "[[\<lparr>frag_text = ''A'', frag_x = 72, frag_y = 700, frag_width = 100,
                 frag_height = 12\<rparr>]]"
  have ex1: "snd (extract_text_from_pdf
                  (Yield [LTTextContainer ''A'' 72 700 100 12] (Raise (Exception ''bad xref''))))
      = Inl (Exception ''bad xref'')"
    by (simp add: extract_text_from_pdf_def strip_def char_class_defs)
  then have "\<exists>e. snd (extract_text_from_pdf (extract_pages ?env1 ''reference/a.pdf'')) = Inl e"
    by simp
  then have f1: "files (fst (convert_pdf_to_html ?env1 ''reference/a.pdf'' ''html_output'' ?w))
      = files ?w"
    using failure_leaves_files [of ?env1 "''reference/a.pdf''" "''html_output''" ?w] by blast
  have ex2: "snd (extract_text_from_pdf (yield_all [[LTTextContainer ''A'' 72 700 100 12]]))
      = Inr ?tc"
    by (simp add: extract_text_from_pdf_def strip_def char_class_defs)
  have "snd (create_html_from_text (prettify ?env2) ?tc) = Inl (Exception ''cannot serialise'')"
    by (simp add: create_html_from_text_def)
  with ex2 have "\<exists>tc e. snd (extract_text_from_pdf (extract_pages ?env2 ''reference/a.pdf''))
        = Inr tc \<and> snd (create_html_from_text (prettify ?env2) tc) = Inl e"
    by simp
  then have f2: "files (fst (convert_pdf_to_html ?env2 ''reference/a.pdf'' ''html_output'' ?w))
      = files ?w"
    using failure_leaves_files [of ?env2 "''reference/a.pdf''" "''html_output''" ?w] by blast
  from ex1 f1 ex2 f2 show ?thesis by simp
qed

end
